theory Spec2Isabelle
  imports Main "HOL-Library.Word"
begin

section \<open>Static secret provider (package secret)\<close>

text \<open>
  The record \<open>drone_Secret\<close> holds the fields of \<open>drone.Secret\<close> that
  \<open>static.Find\<close> reads, \<open>Request\<close> the fields of \<open>secret.Request\<close>.
  Both types are declared outside the files at hand; the request's build is taken to be
  present, since \<open>Find\<close> reads \<open>in.Build.Event\<close> without a nil check.
\<close>

record drone_Secret =
  Secret_Name :: string
  Secret_Data :: string
  Secret_PullRequest :: bool

record drone_Build =
  Build_Event :: string

record Request =
  Request_Name :: string
  Request_Build :: drone_Build

definition EventPullRequest :: string where
  "EventPullRequest = ''pull_request''"

text \<open>
  \<open>strings.EqualFold\<close> belongs to the Go standard library. \<open>Find\<close> takes it as
  the parameter \<open>EqualFold\<close>; \<open>ascii_EqualFold\<close> is its restriction to ASCII
  strings (equality after mapping \<open>A..Z\<close> to \<open>a..z\<close>), used to run \<open>Find\<close>
  on concrete names.
\<close>

definition ascii_lower :: "char \<Rightarrow> char" where
  "ascii_lower c =
     (case map_of (zip ''ABCDEFGHIJKLMNOPQRSTUVWXYZ'' ''abcdefghijklmnopqrstuvwxyz'') c of
        Some d \<Rightarrow> d
      | None \<Rightarrow> c)"

definition ascii_EqualFold :: "string \<Rightarrow> string \<Rightarrow> bool" where
  "ascii_EqualFold s t = (map ascii_lower s = map ascii_lower t)"

text \<open>
  \<open>static.Find\<close>: the loop over \<open>p.secrets\<close>. A name mismatch and a secret
  restricted from pull requests both \<open>continue\<close>; the first other secret is returned.
  \<open>None\<close> is the \<open>nil, nil\<close> after the loop.
\<close>

fun Find :: "(string \<Rightarrow> string \<Rightarrow> bool) \<Rightarrow> drone_Secret list \<Rightarrow> Request \<Rightarrow> drone_Secret option" where
  "Find EqualFold [] req = None"
| "Find EqualFold (secret # secrets) req =
     (if \<not> EqualFold (Secret_Name secret) (Request_Name req) then Find EqualFold secrets req
      else if \<not> Secret_PullRequest secret \<and> Build_Event (Request_Build req) = EventPullRequest
        then Find EqualFold secrets req
      else Some secret)"

section \<open>Properties of the static secret provider\<close>

lemma Find_Some_props:
  "Find EqualFold secrets req = Some s \<Longrightarrow>
   s \<in> set secrets \<and> EqualFold (Secret_Name s) (Request_Name req) \<and>
   \<not> (\<not> Secret_PullRequest s \<and> Build_Event (Request_Build req) = EventPullRequest)"
  by (induction secrets) (auto split: if_splits)

lemma Find_None_iff:
  "Find EqualFold secrets req = None \<longleftrightarrow>
   (\<forall>s \<in> set secrets. \<not> EqualFold (Secret_Name s) (Request_Name req) \<or>
      (\<not> Secret_PullRequest s \<and> Build_Event (Request_Build req) = EventPullRequest))"
  by (induction secrets) auto

text \<open>
  Claim C3. Under a build event \<open>pull_request\<close>, \<open>Find\<close> never returns a secret
  whose \<open>PullRequest\<close> field is false, whatever its name. For every request, \<open>Find\<close>
  returns a secret exactly when some entry of the list has a name equal to the requested
  name under \<open>EqualFold\<close> (equality ignoring case) and is not restricted from the
  request's event; the secret returned is such an entry.
\<close>

theorem Find_pull_request_restriction:
  "(Build_Event (Request_Build req) = EventPullRequest \<longrightarrow>
      (\<forall>s. Find EqualFold secrets req = Some s \<longrightarrow> Secret_PullRequest s)) \<and>
   ((\<exists>s. Find EqualFold secrets req = Some s) \<longleftrightarrow>
      (\<exists>s \<in> set secrets. EqualFold (Secret_Name s) (Request_Name req) \<and>
         \<not> (\<not> Secret_PullRequest s \<and>
            Build_Event (Request_Build req) = EventPullRequest))) \<and>
   (\<forall>s. Find EqualFold secrets req = Some s \<longrightarrow>
      s \<in> set secrets \<and> EqualFold (Secret_Name s) (Request_Name req))"
proof (intro conjI)
  show "Build_Event (Request_Build req) = EventPullRequest \<longrightarrow>
      (\<forall>s. Find EqualFold secrets req = Some s \<longrightarrow> Secret_PullRequest s)"
    using Find_Some_props [of EqualFold secrets req] by blast
next
  show "(\<exists>s. Find EqualFold secrets req = Some s) \<longleftrightarrow>
      (\<exists>s \<in> set secrets. EqualFold (Secret_Name s) (Request_Name req) \<and>
         \<not> (\<not> Secret_PullRequest s \<and>
            Build_Event (Request_Build req) = EventPullRequest))"
    using Find_None_iff [of EqualFold secrets req] by (cases "Find EqualFold secrets req") auto
next
  show "\<forall>s. Find EqualFold secrets req = Some s \<longrightarrow>
      s \<in> set secrets \<and> EqualFold (Secret_Name s) (Request_Name req)"
    using Find_Some_props [of EqualFold secrets req] by blast
qed

theorem Find_pull_request_restriction_witness:
  "Build_Event (Request_Build
      \<lparr>Request_Name = ''TOKEN'', Request_Build = \<lparr>Build_Event = ''pull_request''\<rparr>\<rparr>)
     = EventPullRequest \<and>
   Find ascii_EqualFold
     [\<lparr>Secret_Name = ''token'', Secret_Data = ''a'', Secret_PullRequest = False\<rparr>,
      \<lparr>Secret_Name = ''Token'', Secret_Data = ''b'', Secret_PullRequest = True\<rparr>]
     \<lparr>Request_Name = ''TOKEN'', Request_Build = \<lparr>Build_Event = ''pull_request''\<rparr>\<rparr>
     = Some \<lparr>Secret_Name = ''Token'', Secret_Data = ''b'', Secret_PullRequest = True\<rparr> \<and>
   Find ascii_EqualFold
     [\<lparr>Secret_Name = ''token'', Secret_Data = ''a'', Secret_PullRequest = False\<rparr>]
     \<lparr>Request_Name = ''TOKEN'', Request_Build = \<lparr>Build_Event = ''pull_request''\<rparr>\<rparr>
     = None \<and>
   Find ascii_EqualFold
     [\<lparr>Secret_Name = ''token'', Secret_Data = ''a'', Secret_PullRequest = False\<rparr>]
     \<lparr>Request_Name = ''TOKEN'', Request_Build = \<lparr>Build_Event = ''push''\<rparr>\<rparr>
     = Some \<lparr>Secret_Name = ''token'', Secret_Data = ''a'', Secret_PullRequest = False\<rparr>"
  using Find_pull_request_restriction [of
      "\<lparr>Request_Name = ''TOKEN'', Request_Build = \<lparr>Build_Event = ''pull_request''\<rparr>\<rparr>"
      ascii_EqualFold
      "[\<lparr>Secret_Name = ''token'', Secret_Data = ''a'', Secret_PullRequest = False\<rparr>,
        \<lparr>Secret_Name = ''Token'', Secret_Data = ''b'', Secret_PullRequest = True\<rparr>]"]
  by (simp add: EventPullRequest_def ascii_EqualFold_def ascii_lower_def)

end
